theory Spec2Isabelle
  imports Main
begin

section \<open>A block-based file system: inodes, directories, storage operations\<close>

text \<open>
  The development embeds \<^verbatim>\<open>inode.c\<close>, \<^verbatim>\<open>directory.c\<close> and \<^verbatim>\<open>storage.c\<close>.
  The C program keeps all of its state in one memory image: two bitmaps, the inode table
  and the blocks. Here that image is an explicit record \<open>fs\<close> which every mutating
  function takes and returns. An \<^verbatim>\<open>inode_t *\<close> is always obtained from
  \<^verbatim>\<open>get_inode(inum)\<close>, so a pointer to an inode is modelled by its index \<open>inum\<close>
  into the table.

  Conventions of the model.
  \<^item> C \<^verbatim>\<open>int\<close> values are HOL integers; division and remainder truncate towards zero
    (\<open>c_div\<close>, \<open>c_mod\<close>), and a conversion from a 64-bit \<^verbatim>\<open>size_t\<close> or
    \<^verbatim>\<open>off_t\<close> value to \<^verbatim>\<open>int\<close> is written out (\<open>to_int\<close>).
  \<^item> The inode table, the bitmaps and the blocks are total maps on integer indices. An
    index outside the object (inode \<open>-1\<close>, block \<open>-1\<close>, a directory entry beyond the
    block) stands for the memory the C pointer arithmetic reaches there. In the model
    that is a cell of its own; in the image it lies in another object (slot \<open>-1\<close> of the
    inode table lies in the inode bitmap), so the model tells that the program reads or
    stores outside the object, not which bytes of the image that touches.
  \<^item> The bytes of a block are read by the C code through three pointer types
    (\<^verbatim>\<open>char *\<close>, \<^verbatim>\<open>int *\<close>, \<^verbatim>\<open>dirent_t *\<close>). The model keeps one array per
    view and block; the byte layout that relates the views of one block is not modelled,
    nor is the place of the bitmaps and of the inode table in the first blocks. The
    universally quantified theorems about sequences of operations state, as hypotheses,
    that the blocks and indices used keep the views apart (section
    \<open>Where the model stands for the image\<close>).
  \<^item> A directory entry's name is the string \<^verbatim>\<open>strncpy\<close> stored, and \<^verbatim>\<open>strcmp\<close>
    is equality of strings. A name of \<open>DIR_NAME_LENGTH\<close> characters or more fills the
    field and leaves no terminator in it; the entry then holds the first
    \<open>DIR_NAME_LENGTH\<close> characters, and the theorems about inserted names take shorter
    names.
\<close>

subsection \<open>Constants of the missing headers\<close>

text \<open>Modelled from the spec: \<^verbatim>\<open>blocks.h\<close> is not among the sources. The block store has
  \<open>BLOCK_COUNT\<close> slots of \<open>BLOCK_SIZE\<close> bytes; \<^verbatim>\<open>inode.h\<close> speaks of 4K blocks.\<close>

definition BLOCK_SIZE :: int where
  "BLOCK_SIZE = 4096"

definition BLOCK_COUNT :: int where
  "BLOCK_COUNT = 256"

text \<open>Modelled from the spec: \<^verbatim>\<open>directory.h\<close> is not among the sources. A directory entry
  is a fixed-length name, an inode index and an allocated flag; a block holds
  \<open>BLOCK_SIZE / sizeof(entry)\<close> of them, which is the 64 that \<^verbatim>\<open>directory_lookup\<close> scans.\<close>

definition DIR_NAME_LENGTH :: nat where
  "DIR_NAME_LENGTH = 48"

definition sizeof_dirent :: int where
  "sizeof_dirent = 64"

text \<open>The two error numbers of \<^verbatim>\<open>errno.h\<close> that the code returns negated.\<close>

definition ENOENT :: int where
  "ENOENT = 2"

definition EEXIST :: int where
  "EEXIST = 17"

subsection \<open>C integer arithmetic\<close>

definition c_div :: "int \<Rightarrow> int \<Rightarrow> int" where
  "c_div a b = (if (a < 0) = (b < 0) then \<bar>a\<bar> div \<bar>b\<bar> else - (\<bar>a\<bar> div \<bar>b\<bar>))"

definition c_mod :: "int \<Rightarrow> int \<Rightarrow> int" where
  "c_mod a b = a - b * c_div a b"

text \<open>Conversion of a wider integer to the 32-bit \<^verbatim>\<open>int\<close>: the value modulo \<open>2^32\<close>,
  read as two's complement.\<close>

definition to_int :: "int \<Rightarrow> int" where
  "to_int x = (x + 2147483648) mod 4294967296 - 2147483648"

text \<open>Conversion of an \<^verbatim>\<open>int\<close> to the unsigned 64-bit \<^verbatim>\<open>size_t\<close>.\<close>

definition to_size_t :: "int \<Rightarrow> int" where
  "to_size_t x = x mod 18446744073709551616"

subsection \<open>Data\<close>

record inode =
  refs :: int
  mode :: int
  size_i :: int
  block :: int
  pointers :: "int \<Rightarrow> int"

record dirent =
  name :: string
  inum :: int
  input_allocation :: int

record stat =
  st_nlink :: int
  st_mode :: int
  st_size :: int

record fs =
  inode_bitmap :: "int \<Rightarrow> bool"
  blocks_bitmap :: "int \<Rightarrow> bool"
  inodes :: "int \<Rightarrow> inode"
  block_bytes :: "int \<Rightarrow> int \<Rightarrow> char"
  block_ints :: "int \<Rightarrow> int \<Rightarrow> int"
  block_dirents :: "int \<Rightarrow> int \<Rightarrow> dirent"

subsection \<open>Bitmaps and the block store\<close>

text \<open>Modelled from the spec: \<^verbatim>\<open>bitmap.c\<close> is not among the sources. The generic bitmap
  gets and sets one bit of a buffer.\<close>

definition bitmap_get :: "(int \<Rightarrow> bool) \<Rightarrow> int \<Rightarrow> int" where
  "bitmap_get bm i = (if bm i then 1 else 0)"

definition bitmap_put :: "(int \<Rightarrow> bool) \<Rightarrow> int \<Rightarrow> int \<Rightarrow> (int \<Rightarrow> bool)" where
  "bitmap_put bm i v = bm (i := (v \<noteq> 0))"

text \<open>Modelled from the spec: \<^verbatim>\<open>blocks.c\<close> is not among the sources. \<open>alloc_block\<close> takes
  the first free block, index 0 being reserved, and reports \<open>-1\<close> when none is free;
  \<open>free_block\<close> clears the block's bit. Neither touches the contents of a block.\<close>

function alloc_block_loop :: "fs \<Rightarrow> int \<Rightarrow> int \<times> fs" where
  "alloc_block_loop s ii =
     (if ii < BLOCK_COUNT then
        (if bitmap_get (blocks_bitmap s) ii = 0
         then (ii, s\<lparr>blocks_bitmap := bitmap_put (blocks_bitmap s) ii 1\<rparr>)
         else alloc_block_loop s (ii + 1))
      else (-1, s))"
  by pat_completeness auto
termination
  by (relation "measure (\<lambda>(s, ii). nat (BLOCK_COUNT - ii))") auto

definition alloc_block :: "fs \<Rightarrow> int \<times> fs" where
  "alloc_block s = alloc_block_loop s 1"

definition free_block :: "fs \<Rightarrow> int \<Rightarrow> fs" where
  "free_block s bnum = s\<lparr>blocks_bitmap := bitmap_put (blocks_bitmap s) bnum 0\<rparr>"

subsection \<open>Inode layer (inode.c)\<close>

definition get_inode :: "fs \<Rightarrow> int \<Rightarrow> inode" where
  "get_inode s n = inodes s n"

definition put_inode :: "fs \<Rightarrow> int \<Rightarrow> inode \<Rightarrow> fs" where
  "put_inode s n v = s\<lparr>inodes := (inodes s) (n := v)\<rparr>"

text \<open>The loop of \<^verbatim>\<open>alloc_inode\<close>: the first clear bit is set and its index kept;
  \<open>-1\<close>, the initial value of \<^verbatim>\<open>node_index\<close>, is what remains when no bit is clear.\<close>

function alloc_inode_loop :: "fs \<Rightarrow> int \<Rightarrow> int \<times> fs" where
  "alloc_inode_loop s i =
     (if i < BLOCK_COUNT then
        (if bitmap_get (inode_bitmap s) i = 0
         then (i, s\<lparr>inode_bitmap := bitmap_put (inode_bitmap s) i 1\<rparr>)
         else alloc_inode_loop s (i + 1))
      else (-1, s))"
  by pat_completeness auto
termination
  by (relation "measure (\<lambda>(s, i). nat (BLOCK_COUNT - i))") auto

text \<open>After the loop the code writes through \<^verbatim>\<open>get_inode(node_index)\<close> whatever the
  loop found: there is no test of \<^verbatim>\<open>node_index\<close> before the four assignments.\<close>

definition alloc_inode :: "fs \<Rightarrow> int \<times> fs" where
  "alloc_inode s =
     (let (node_index, s1) = alloc_inode_loop s 0;
          s2 = put_inode s1 node_index
                 ((get_inode s1 node_index)\<lparr>refs := 1, mode := 0, size_i := 0\<rparr>);
          (b, s3) = alloc_block s2;
          nd = get_inode s3 node_index;
          s4 = put_inode s3 node_index (nd\<lparr>pointers := (pointers nd) (0 := b)\<rparr>)
      in (node_index, s4))"

text \<open>One round of the loop of \<^verbatim>\<open>grow_inode\<close> for extent index \<open>i\<close>.\<close>

definition grow_step :: "fs \<Rightarrow> int \<Rightarrow> int \<Rightarrow> fs" where
  "grow_step s n i =
     (if i \<ge> 2 then
        (let s1 = (if block (get_inode s n) = 0
                   then (let (b, s') = alloc_block s
                         in put_inode s' n ((get_inode s' n)\<lparr>block := b\<rparr>))
                   else s);
             current_pointer = block (get_inode s1 n);
             (b2, s2) = alloc_block s1
         in s2\<lparr>block_ints := (block_ints s2)
                  (current_pointer := (block_ints s2 current_pointer) (i - 2 := b2))\<rparr>)
      else
        (let (b, s1) = alloc_block s;
             nd = get_inode s1 n
         in put_inode s1 n (nd\<lparr>pointers := (pointers nd) (i := b)\<rparr>)))"

function grow_inode_loop :: "fs \<Rightarrow> int \<Rightarrow> int \<Rightarrow> int \<Rightarrow> fs" where
  "grow_inode_loop s n size_needed i =
     (if i \<le> size_needed then grow_inode_loop (grow_step s n i) n size_needed (i + 1)
      else s)"
  by pat_completeness auto
termination
  by (relation "measure (\<lambda>(s, n, size_needed, i). nat (size_needed + 1 - i))") auto

definition grow_inode :: "fs \<Rightarrow> int \<Rightarrow> int \<Rightarrow> fs" where
  "grow_inode s n sz =
     (let curr_size = c_div (size_i (get_inode s n)) BLOCK_SIZE + 1;
          size_needed = c_div sz BLOCK_SIZE;
          s1 = grow_inode_loop s n size_needed curr_size
      in put_inode s1 n ((get_inode s1 n)\<lparr>size_i := sz\<rparr>))"

text \<open>One round of the loop of \<^verbatim>\<open>shrink_inode\<close> for extent index \<open>i\<close>. The assignment
  \<^verbatim>\<open>curr_point = 0\<close> changes a local variable only: the entry of the indirect block
  keeps its value.\<close>

definition shrink_step :: "fs \<Rightarrow> int \<Rightarrow> int \<Rightarrow> fs" where
  "shrink_step s n i =
     (if i \<ge> 2 then
        (let current_pointer = block (get_inode s n);
             curr_point = block_ints s current_pointer (i - 2);
             s1 = free_block s curr_point
         in if i = 2
            then (let s2 = free_block s1 (block (get_inode s1 n))
                  in put_inode s2 n ((get_inode s2 n)\<lparr>block := 0\<rparr>))
            else s1)
      else
        (let s1 = free_block s (pointers (get_inode s n) i);
             nd = get_inode s1 n
         in put_inode s1 n (nd\<lparr>pointers := (pointers nd) (i := 0)\<rparr>)))"

function shrink_inode_loop :: "fs \<Rightarrow> int \<Rightarrow> int \<Rightarrow> int \<Rightarrow> fs" where
  "shrink_inode_loop s n size_needed i =
     (if i \<ge> size_needed then shrink_inode_loop (shrink_step s n i) n size_needed (i - 1)
      else s)"
  by pat_completeness auto
termination
  by (relation "measure (\<lambda>(s, n, size_needed, i). nat (i + 1 - size_needed))") auto

definition shrink_inode :: "fs \<Rightarrow> int \<Rightarrow> int \<Rightarrow> fs" where
  "shrink_inode s n sz =
     (let curr_size = c_div (size_i (get_inode s n)) BLOCK_SIZE + 1;
          size_needed = c_div sz BLOCK_SIZE;
          s1 = shrink_inode_loop s n size_needed curr_size
      in put_inode s1 n ((get_inode s1 n)\<lparr>size_i := sz\<rparr>))"

text \<open>\<^verbatim>\<open>free_inode\<close> ends with \<^verbatim>\<open>assert(inode_delete->size == 0)\<close>. The assertion
  cannot fail, since \<open>shrink_inode\<close> has just stored 0 there (lemma
  \<open>free_inode_size\<close> below), so the model has no branch for it.\<close>

definition free_inode :: "fs \<Rightarrow> int \<Rightarrow> fs" where
  "free_inode s n =
     (let s1 = shrink_inode s n 0;
          s2 = free_block s1 (pointers (get_inode s1 n) 0)
      in s2\<lparr>inode_bitmap := bitmap_put (inode_bitmap s2) n 0\<rparr>)"

definition inode_get_bnum :: "fs \<Rightarrow> int \<Rightarrow> int \<Rightarrow> int" where
  "inode_get_bnum s n file_bnum =
     (let curr_pointer = c_div file_bnum BLOCK_SIZE
      in if curr_pointer \<ge> 2
         then block_ints s (block (get_inode s n)) (curr_pointer - 2)
         else pointers (get_inode s n) curr_pointer)"

subsection \<open>Directory layer (directory.c)\<close>

definition directory_init :: "fs \<Rightarrow> fs" where
  "directory_init s =
     (let (inum', s1) = alloc_inode s
      in if inum' < 0 then s1
         else put_inode s1 inum' ((get_inode s1 inum')\<lparr>mode := 16877\<rparr>))"

text \<open>The scan of \<^verbatim>\<open>directory_lookup\<close> over the entries \<open>i, i + 1, ...\<close> below
  \<open>num_entries\<close>.\<close>

function directory_lookup_loop :: "(int \<Rightarrow> dirent) \<Rightarrow> string \<Rightarrow> int \<Rightarrow> int \<Rightarrow> int" where
  "directory_lookup_loop dir_entries nm num_entries i =
     (if i < num_entries then
        (if name (dir_entries i) = nm \<and> input_allocation (dir_entries i) = 1
         then inum (dir_entries i)
         else directory_lookup_loop dir_entries nm num_entries (i + 1))
      else -1)"
  by pat_completeness auto
termination
  by (relation "measure (\<lambda>(dir_entries, nm, num_entries, i). nat (num_entries - i))") auto

definition directory_lookup :: "fs \<Rightarrow> int \<Rightarrow> string \<Rightarrow> int" where
  "directory_lookup s di nm =
     (let num_entries = 64
      in if nm = [] then 0
         else directory_lookup_loop (block_dirents s (pointers (get_inode s di) 0)) nm num_entries 0)"

text \<open>Modelled from the spec: \<^verbatim>\<open>slist.c\<close> is not among the sources. The path-splitting
  utility tokenizes a delimited path into the ordered sequence of its components: every
  delimiter ends a component, and what follows the last delimiter is a component when it
  is not empty. So \<^verbatim>\<open>/a/b\<close> has the components \<open>[[], a, b]\<close>, \<^verbatim>\<open>/\<close> has \<open>[[]]\<close>, and the
  empty path has none. The leading empty component of an absolute path is the one that
  \<^verbatim>\<open>directory_lookup\<close> resolves to the root.\<close>

fun s_explode :: "string \<Rightarrow> char \<Rightarrow> string list" where
  "s_explode [] delim = []"
| "s_explode (c # cs) delim =
     (if c = delim then [] # s_explode cs delim
      else (case s_explode cs delim of
              [] \<Rightarrow> [[c]]
            | part # rest \<Rightarrow> (c # part) # rest))"

fun path_lookup_loop :: "fs \<Rightarrow> int \<Rightarrow> string list \<Rightarrow> int" where
  "path_lookup_loop s inum' [] = inum'"
| "path_lookup_loop s inum' (curr_dir # rest) =
     (let inum'' = directory_lookup s inum' curr_dir
      in if inum'' = -1 then -1 else path_lookup_loop s inum'' rest)"

definition path_lookup :: "fs \<Rightarrow> string \<Rightarrow> int" where
  "path_lookup s path = path_lookup_loop s 0 (s_explode path CHR ''/'')"

definition put_dirent :: "fs \<Rightarrow> int \<Rightarrow> int \<Rightarrow> dirent \<Rightarrow> fs" where
  "put_dirent s b i e =
     s\<lparr>block_dirents := (block_dirents s) (b := (block_dirents s b) (i := e))\<rparr>"

text \<open>\<^verbatim>\<open>int entries = di->size / sizeof(dirent_t)\<close>: the division is done in \<^verbatim>\<open>size_t\<close>
  and the quotient converted back to \<^verbatim>\<open>int\<close>.\<close>

definition dir_entries_count :: "fs \<Rightarrow> int \<Rightarrow> int" where
  "dir_entries_count s di = to_int (to_size_t (size_i (get_inode s di)) div sizeof_dirent)"

text \<open>The loop of \<^verbatim>\<open>directory_put\<close>; it starts at index 1. \<open>None\<close> stands for leaving
  the loop without having returned.\<close>

function directory_put_loop :: "fs \<Rightarrow> int \<Rightarrow> dirent \<Rightarrow> int \<Rightarrow> int \<Rightarrow> fs option" where
  "directory_put_loop s b mock_dir entries i =
     (if i < entries then
        (if input_allocation (block_dirents s b i) = 0
         then Some (put_dirent s b i mock_dir)
         else directory_put_loop s b mock_dir entries (i + 1))
      else None)"
  by pat_completeness auto
termination
  by (relation "measure (\<lambda>(s, b, mock_dir, entries, i). nat (entries - i))") auto

definition directory_put :: "fs \<Rightarrow> int \<Rightarrow> string \<Rightarrow> int \<Rightarrow> int \<times> fs" where
  "directory_put s di nm inum' =
     (let entries = dir_entries_count s di;
          b = pointers (get_inode s di) 0;
          mock_dir = \<lparr>name = take DIR_NAME_LENGTH nm, inum = inum', input_allocation = 1\<rparr>
      in case directory_put_loop s b mock_dir entries 1 of
           Some s' \<Rightarrow> (0, s')
         | None \<Rightarrow>
             (let s1 = put_dirent s b entries mock_dir;
                  nd = get_inode s1 di
              in (0, put_inode s1 di
                       (nd\<lparr>size_i := to_int (to_size_t (to_size_t (size_i nd) + sizeof_dirent))\<rparr>))))"

text \<open>What \<^verbatim>\<open>directory_delete\<close> does at the entry \<open>i\<close> it has matched.\<close>

definition directory_delete_at :: "fs \<Rightarrow> int \<Rightarrow> int \<Rightarrow> fs" where
  "directory_delete_at s b i =
     (let inum' = inum (block_dirents s b i);
          curr_inode = get_inode s inum';
          s1 = put_inode s inum' (curr_inode\<lparr>refs := refs curr_inode - 1\<rparr>);
          s2 = (if refs (get_inode s1 inum') \<le> 0 then free_inode s1 inum' else s1)
      in put_dirent s2 b i ((block_dirents s2 b i)\<lparr>input_allocation := 0\<rparr>))"

function directory_delete_loop :: "fs \<Rightarrow> int \<Rightarrow> string \<Rightarrow> int \<Rightarrow> int \<Rightarrow> int \<times> fs" where
  "directory_delete_loop s b nm entries i =
     (if i < entries then
        (if name (block_dirents s b i) = nm \<and> input_allocation (block_dirents s b i) \<noteq> 0
         then (0, directory_delete_at s b i)
         else directory_delete_loop s b nm entries (i + 1))
      else (- ENOENT, s))"
  by pat_completeness auto
termination
  by (relation "measure (\<lambda>(s, b, nm, entries, i). nat (entries - i))") auto

definition directory_delete :: "fs \<Rightarrow> int \<Rightarrow> string \<Rightarrow> int \<times> fs" where
  "directory_delete s di nm =
     directory_delete_loop s (pointers (get_inode s di) 0) nm (dir_entries_count s di) 0"

subsection \<open>Storage layer (storage.c)\<close>

text \<open>\<^verbatim>\<open>split_path\<close> walks the component list with \<^verbatim>\<open>item->next\<close> from its head, so
  a path without components is a null dereference: \<open>None\<close>. Every component but the last
  is appended to the parent path after a slash, \<^verbatim>\<open>strncat\<close> taking at most
  \<open>DIR_NAME_LENGTH\<close> characters of it; the last one is the child name, cut to
  \<open>DIR_NAME_LENGTH\<close> characters.\<close>

definition split_path :: "string \<Rightarrow> (string \<times> string) option" where
  "split_path fullPath =
     (case s_explode fullPath CHR ''/'' of
        [] \<Rightarrow> None
      | item # items \<Rightarrow>
          Some (concat (map (\<lambda>c. CHR ''/'' # take DIR_NAME_LENGTH c) (butlast (item # items))),
                take DIR_NAME_LENGTH (last (item # items))))"

text \<open>The storage operations return the file system with their result, so that what an
  operation leaves unchanged can be stated.\<close>

definition storage_stat :: "fs \<Rightarrow> string \<Rightarrow> stat \<Rightarrow> int \<times> stat \<times> fs" where
  "storage_stat s path st =
     (let inodeNumber = path_lookup s path
      in if inodeNumber \<le> 0 then (-1, st, s)
         else (let nd = get_inode s inodeNumber
               in (0, st\<lparr>st_nlink := refs nd, st_mode := mode nd, st_size := size_i nd\<rparr>, s)))"

definition storage_truncate :: "fs \<Rightarrow> string \<Rightarrow> int \<Rightarrow> int \<times> fs" where
  "storage_truncate s path sz =
     (let inodeNumber = path_lookup s path
      in if inodeNumber \<le> 0 then (-1, s)
         else if sz > size_i (get_inode s inodeNumber)
              then (0, grow_inode s inodeNumber (to_int sz))
              else (0, shrink_inode s inodeNumber (to_int sz)))"


lemma c_mod_nonneg: "0 \<le> a \<Longrightarrow> 0 < b \<Longrightarrow> c_mod a b = a mod b"
  by (simp add: c_mod_def c_div_def minus_mult_div_eq_mod)

lemma c_mod_lt: "0 < b \<Longrightarrow> c_mod a b < b"
proof -
  assume b: "0 < b"
  show ?thesis
  proof (cases "a < 0")
    case True
    have "c_mod a b = - ((- a) mod b)"
      using True b by (simp add: c_mod_def c_div_def minus_mult_div_eq_mod[symmetric])
    moreover have "0 \<le> (- a) mod b" using b by simp
    ultimately show ?thesis using b by linarith
  next
    case False
    then have "c_mod a b = a mod b"
      using b by (simp add: c_mod_nonneg)
    then show ?thesis using b by simp
  qed
qed

text \<open>The loop of \<^verbatim>\<open>storage_read\<close>. \<open>buf\<close> is what has been copied to the caller's
  buffer so far, that is \<^verbatim>\<open>buf[0 .. bytesRead)\<close>. The variable \<^verbatim>\<open>offset\<close> is never
  advanced: only the argument of \<^verbatim>\<open>inode_get_bnum\<close> moves with \<^verbatim>\<open>bytesRead\<close>.\<close>

function storage_read_loop :: "fs \<Rightarrow> int \<Rightarrow> int \<Rightarrow> int \<Rightarrow> int \<Rightarrow> string \<Rightarrow> int \<times> string" where
  "storage_read_loop s n offset remainingSize bytesRead buf =
     (if remainingSize > 0 then
        (let blockNum = inode_get_bnum s n (to_int (offset + bytesRead));
             blockOff = c_mod offset BLOCK_SIZE;
             blockReadSize = BLOCK_SIZE - c_mod offset BLOCK_SIZE;
             readSize = (if remainingSize < blockReadSize then remainingSize else blockReadSize);
             chunk = map (\<lambda>k. block_bytes s blockNum (blockOff + int k)) [0 ..< nat readSize]
         in storage_read_loop s n offset (remainingSize - readSize) (bytesRead + readSize)
              (buf @ chunk))
      else (bytesRead, buf))"
  by pat_completeness auto
termination
proof (relation "measure (\<lambda>(s, n, offset, remainingSize, bytesRead, buf). nat remainingSize)")
  show "wf (measure (\<lambda>(s, n, offset, remainingSize, bytesRead, buf). nat remainingSize))"
    by simp
next
  fix s :: fs and n offset remainingSize bytesRead :: int and buf :: string
    and blockNum blockOff blockReadSize readSize :: int and chunk :: string
  assume "0 < remainingSize"
    and "blockReadSize = BLOCK_SIZE - c_mod offset BLOCK_SIZE"
    and "readSize = (if remainingSize < blockReadSize then remainingSize else blockReadSize)"
  moreover have "c_mod offset BLOCK_SIZE < BLOCK_SIZE"
    by (rule c_mod_lt) (simp add: BLOCK_SIZE_def)
  ultimately show "((s, n, offset, remainingSize - readSize, bytesRead + readSize, buf @ chunk),
      (s, n, offset, remainingSize, bytesRead, buf))
      \<in> measure (\<lambda>(s, n, offset, remainingSize, bytesRead, buf). nat remainingSize)"
    by auto
qed

text \<open>\<open>storage_read\<close> returns the count and the bytes copied to the caller's buffer.\<close>

definition storage_read :: "fs \<Rightarrow> string \<Rightarrow> int \<Rightarrow> int \<Rightarrow> int \<times> string \<times> fs" where
  "storage_read s path sz offset =
     (let inodeNumber = path_lookup s path
      in if inodeNumber \<le> 0 then (-1, [], s)
         else if offset \<ge> size_i (get_inode s inodeNumber) then (0, [], s)
         else (let remainingSize = to_int sz;
                   (bytesRead, buf) = storage_read_loop s inodeNumber offset remainingSize 0 []
               in (bytesRead, buf, s)))"

text \<open>\<^verbatim>\<open>memcpy(blockPtr, src, n)\<close> into block \<open>bnum\<close> at byte \<open>off\<close>. \<open>src\<close> is the
  list of bytes at the source pointer; the C caller guarantees that it holds \<open>n\<close>
  bytes.\<close>

definition memcpy_to_block :: "fs \<Rightarrow> int \<Rightarrow> int \<Rightarrow> string \<Rightarrow> int \<Rightarrow> fs" where
  "memcpy_to_block s bnum off src n =
     (let chunk = take (nat n) src
      in s\<lparr>block_bytes := (block_bytes s)
             (bnum := (\<lambda>k. if off \<le> k \<and> k < off + int (length chunk)
                            then chunk ! nat (k - off)
                            else block_bytes s bnum k))\<rparr>)"

function storage_write_loop :: "fs \<Rightarrow> int \<Rightarrow> string \<Rightarrow> int \<Rightarrow> int \<Rightarrow> int \<Rightarrow> int \<times> fs" where
  "storage_write_loop s n buf sz offset bytesWritten =
     (if sz > 0 then
        (let blockNum = inode_get_bnum s n (to_int (offset + bytesWritten));
             blockOff = c_mod offset BLOCK_SIZE;
             blockWriteSize = BLOCK_SIZE - c_mod offset BLOCK_SIZE;
             writeSize = (if sz < blockWriteSize then sz else blockWriteSize);
             s1 = memcpy_to_block s blockNum blockOff (drop (nat bytesWritten) buf) writeSize
         in storage_write_loop s1 n buf (sz - writeSize) offset (bytesWritten + writeSize))
      else (bytesWritten, s))"
  by pat_completeness auto
termination
proof (relation "measure (\<lambda>(s, n, buf, sz, offset, bytesWritten). nat sz)")
  show "wf (measure (\<lambda>(s, n, buf, sz, offset, bytesWritten). nat sz))"
    by simp
next
  fix s s1 :: fs and n sz offset bytesWritten :: int and buf :: string
    and blockNum blockOff blockWriteSize writeSize :: int
  assume "0 < sz"
    and "blockWriteSize = BLOCK_SIZE - c_mod offset BLOCK_SIZE"
    and "writeSize = (if sz < blockWriteSize then sz else blockWriteSize)"
  moreover have "c_mod offset BLOCK_SIZE < BLOCK_SIZE"
    by (rule c_mod_lt) (simp add: BLOCK_SIZE_def)
  ultimately show "((s1, n, buf, sz - writeSize, offset, bytesWritten + writeSize),
      (s, n, buf, sz, offset, bytesWritten))
      \<in> measure (\<lambda>(s, n, buf, sz, offset, bytesWritten). nat sz)"
    by auto
qed

text \<open>\<^verbatim>\<open>int endOffset = offset + size\<close> is computed in 64 bits and converted.\<close>

definition storage_write :: "fs \<Rightarrow> string \<Rightarrow> string \<Rightarrow> int \<Rightarrow> int \<Rightarrow> int \<times> fs" where
  "storage_write s path buf sz offset =
     (let inodeNumber = path_lookup s path
      in if inodeNumber \<le> 0 then (-1, s)
         else (let endOffset = to_int (to_size_t (to_size_t offset + sz));
                   s1 = (if endOffset > size_i (get_inode s inodeNumber)
                         then snd (storage_truncate s path endOffset) else s)
               in storage_write_loop s1 inodeNumber buf sz offset 0))"

text \<open>In the three operations below \<open>None\<close> is the null dereference of \<open>split_path\<close>.\<close>

definition storage_mknod :: "fs \<Rightarrow> string \<Rightarrow> int \<Rightarrow> (int \<times> fs) option" where
  "storage_mknod s path md =
     (let inodeNumber = path_lookup s path
      in if inodeNumber \<noteq> -1 then Some (- EEXIST, s)
         else (case split_path path of
                 None \<Rightarrow> None
               | Some (parentPath, childName) \<Rightarrow>
                   (let parentInodeNum = path_lookup s parentPath
                    in if parentInodeNum < 0 then Some (- ENOENT, s)
                       else (let (childInodeNum, s1) = alloc_inode s;
                                 s2 = put_inode s1 childInodeNum
                                        ((get_inode s1 childInodeNum)
                                           \<lparr>refs := 1, mode := md, size_i := 0\<rparr>);
                                 (rc, s3) = directory_put s2 parentInodeNum childName childInodeNum
                             in Some (0, s3)))))"

definition storage_unlink :: "fs \<Rightarrow> string \<Rightarrow> (int \<times> fs) option" where
  "storage_unlink s path =
     (case split_path path of
        None \<Rightarrow> None
      | Some (parentPath, fileName) \<Rightarrow>
          (let parentInodeNum = path_lookup s parentPath
           in Some (directory_delete s parentInodeNum fileName)))"

definition storage_link :: "fs \<Rightarrow> string \<Rightarrow> string \<Rightarrow> (int \<times> fs) option" where
  "storage_link s from to =
     (let toInodeNum = path_lookup s to
      in if toInodeNum < 0 then Some (-1, s)
         else (case split_path from of
                 None \<Rightarrow> None
               | Some (parentPath, fileName) \<Rightarrow>
                   (let parentInodeNum = path_lookup s parentPath;
                        (rc, s1) = directory_put s parentInodeNum fileName toInodeNum;
                        toInode = get_inode s1 toInodeNum
                    in Some (0, put_inode s1 toInodeNum (toInode\<lparr>refs := refs toInode + 1\<rparr>)))))"

text \<open>\<^verbatim>\<open>storage_init\<close> after \<^verbatim>\<open>blocks_init\<close> has mapped the image: three blocks are
  taken when block 1 is free, and the root directory is made when block 4 is free.\<close>

definition storage_init :: "fs \<Rightarrow> fs" where
  "storage_init s =
     (let s1 = (if bitmap_get (blocks_bitmap s) 1 = 0
                then snd (alloc_block (snd (alloc_block (snd (alloc_block s)))))
                else s)
      in if bitmap_get (blocks_bitmap s1) 4 = 0 then directory_init s1 else s1)"

text \<open>The loops are unfolded by hand in the proofs below.\<close>

declare alloc_block_loop.simps [simp del] alloc_inode_loop.simps [simp del]
  grow_inode_loop.simps [simp del] shrink_inode_loop.simps [simp del]
  directory_lookup_loop.simps [simp del] directory_put_loop.simps [simp del]
  directory_delete_loop.simps [simp del] storage_read_loop.simps [simp del]
  storage_write_loop.simps [simp del]

section \<open>Sample file systems\<close>

text \<open>\<open>blank_fs\<close> is a zeroed image in which only block 0 is marked used. \<open>fs_init\<close>,
  \<open>fs_a\<close> and \<open>fs_hello\<close> are the states after \<^verbatim>\<open>storage_init\<close>, then
  \<^verbatim>\<open>mknod("/a", 0100644)\<close>, then \<^verbatim>\<open>write("/a", "hello", 5, 0)\<close>; the lemmas
  \<open>fs_init_reached\<close>, \<open>fs_a_reached\<close> and \<open>fs_hello_reached\<close> run the code to them.\<close>

definition zero_inode :: inode where
  "zero_inode = \<lparr>refs = 0, mode = 0, size_i = 0, block = 0, pointers = (\<lambda>_. 0)\<rparr>"

definition zero_dirent :: dirent where
  "zero_dirent = \<lparr>name = [], inum = 0, input_allocation = 0\<rparr>"

definition blank_fs :: fs where
  "blank_fs = \<lparr>inode_bitmap = (\<lambda>_. False), blocks_bitmap = (\<lambda>i. i = 0),
     inodes = (\<lambda>_. zero_inode), block_bytes = (\<lambda>_ _. CHR 0x00),
     block_ints = (\<lambda>_ _. 0), block_dirents = (\<lambda>_ _. zero_dirent)\<rparr>"


definition fs_hello :: fs where
  "fs_hello = \<lparr>inode_bitmap = (\<lambda>i. i = 0 \<or> i = 1), blocks_bitmap = (\<lambda>i. 0 \<le> i \<and> i \<le> 5),
     inodes = (\<lambda>_. zero_inode)
       (0 := \<lparr>refs = 1, mode = 16877, size_i = 64, block = 0, pointers = (\<lambda>_. 0)(0 := 4)\<rparr>,
        1 := \<lparr>refs = 1, mode = 33188, size_i = 5, block = 0, pointers = (\<lambda>_. 0)(0 := 5)\<rparr>),
     block_bytes = (\<lambda>_ _. CHR 0x00)(5 := (\<lambda>k. if 0 \<le> k \<and> k < 5 then ''hello'' ! nat k else CHR 0x00)),
     block_ints = (\<lambda>_ _. 0),
     block_dirents = (\<lambda>_ _. zero_dirent)
       (4 := (\<lambda>_. zero_dirent)(0 := \<lparr>name = ''a'', inum = 1, input_allocation = 1\<rparr>))\<rparr>"

lemmas loop_simps = alloc_block_loop.simps alloc_inode_loop.simps grow_inode_loop.simps
  shrink_inode_loop.simps directory_lookup_loop.simps directory_put_loop.simps
  directory_delete_loop.simps storage_read_loop.simps storage_write_loop.simps

lemmas op_defs = BLOCK_SIZE_def BLOCK_COUNT_def DIR_NAME_LENGTH_def sizeof_dirent_def ENOENT_def
  EEXIST_def c_div_def c_mod_def to_int_def to_size_t_def bitmap_get_def bitmap_put_def
  alloc_block_def free_block_def get_inode_def put_inode_def alloc_inode_def grow_step_def
  grow_inode_def shrink_step_def shrink_inode_def free_inode_def inode_get_bnum_def
  directory_init_def directory_lookup_def path_lookup_def put_dirent_def dir_entries_count_def
  directory_put_def directory_delete_at_def directory_delete_def split_path_def
  storage_stat_def storage_truncate_def storage_read_def memcpy_to_block_def storage_write_def
  storage_mknod_def storage_unlink_def storage_link_def storage_init_def
  zero_inode_def zero_dirent_def


definition fs_init :: fs where
  "fs_init = \<lparr>inode_bitmap = (\<lambda>i. i = 0), blocks_bitmap = (\<lambda>i. 0 \<le> i \<and> i \<le> 4),
     inodes = (\<lambda>_. zero_inode)
       (0 := \<lparr>refs = 1, mode = 16877, size_i = 0, block = 0, pointers = (\<lambda>_. 0)(0 := 4)\<rparr>),
     block_bytes = (\<lambda>_ _. CHR 0x00),
     block_ints = (\<lambda>_ _. 0),
     block_dirents = (\<lambda>_ _. zero_dirent)\<rparr>"

definition fs_a :: fs where
  "fs_a = \<lparr>inode_bitmap = (\<lambda>i. i = 0 \<or> i = 1), blocks_bitmap = (\<lambda>i. 0 \<le> i \<and> i \<le> 5),
     inodes = (\<lambda>_. zero_inode)
       (0 := \<lparr>refs = 1, mode = 16877, size_i = 64, block = 0, pointers = (\<lambda>_. 0)(0 := 4)\<rparr>,
        1 := \<lparr>refs = 1, mode = 33188, size_i = 0, block = 0, pointers = (\<lambda>_. 0)(0 := 5)\<rparr>),
     block_bytes = (\<lambda>_ _. CHR 0x00),
     block_ints = (\<lambda>_ _. 0),
     block_dirents = (\<lambda>_ _. zero_dirent)
       (4 := (\<lambda>_. zero_dirent)(0 := \<lparr>name = ''a'', inum = 1, input_allocation = 1\<rparr>))\<rparr>"

lemma fs_init_reached: "storage_init blank_fs = fs_init"
  by (simp add: blank_fs_def fs_init_def op_defs loop_simps) (auto simp: fun_eq_iff)

lemma fs_a_reached: "storage_mknod fs_init ''/a'' 33188 = Some (0, fs_a)"
  by (simp add: fs_init_def fs_a_def op_defs loop_simps) (auto simp: fun_eq_iff)

lemma fs_hello_reached: "storage_write fs_a ''/a'' ''hello'' 5 0 = (5, fs_hello)"
  by (simp add: fs_hello_def fs_a_def op_defs loop_simps) (auto simp: fun_eq_iff)


section \<open>Properties\<close>

subsection \<open>stat\<close>





text \<open>Claim C10. \<^verbatim>\<open>storage_stat\<close> is read-only: whatever the path and the file system,
  and whether it succeeds or fails, the file system it leaves (bitmaps, inode table, every
  view of every block) is the one it was given. Only the caller's record changes.\<close>

theorem storage_stat_read_only:
  "snd (snd (storage_stat s path st)) = s"
  by (simp add: storage_stat_def Let_def)


subsection \<open>Removing a name that is not there\<close>


text \<open>Entry \<open>i\<close> of the directory with inode \<open>di\<close>.\<close>

definition dir_entry :: "fs \<Rightarrow> int \<Rightarrow> int \<Rightarrow> dirent" where
  "dir_entry s di i = block_dirents s (pointers (get_inode s di) 0) i"




subsection \<open>Inode allocation when the bitmap is full\<close>

lemma alloc_block_loop_fst_cong:
  "blocks_bitmap t = blocks_bitmap s \<Longrightarrow> fst (alloc_block_loop t i) = fst (alloc_block_loop s i)"
proof (induction s i arbitrary: t rule: alloc_block_loop.induct)
  case (1 s ii)
  show ?case
  proof (cases "ii < BLOCK_COUNT \<and> bitmap_get (blocks_bitmap s) ii \<noteq> 0")
    case True
    then have "fst (alloc_block_loop t (ii + 1)) = fst (alloc_block_loop s (ii + 1))"
      using "1.IH" [of t] "1.prems" by blast
    moreover have "alloc_block_loop s ii = alloc_block_loop s (ii + 1)"
      using True by (subst alloc_block_loop.simps) simp
    moreover have "alloc_block_loop t ii = alloc_block_loop t (ii + 1)"
      using True "1.prems" by (subst alloc_block_loop.simps) simp
    ultimately show ?thesis by simp
  next
    case False
    have "fst (alloc_block_loop s ii) = (if ii < BLOCK_COUNT then ii else -1)"
      using False by (subst alloc_block_loop.simps) auto
    moreover have "fst (alloc_block_loop t ii) = (if ii < BLOCK_COUNT then ii else -1)"
      using False "1.prems" by (subst alloc_block_loop.simps) auto
    ultimately show ?thesis by simp
  qed
qed

lemma alloc_block_loop_inodes: "inodes (snd (alloc_block_loop s i)) = inodes s"
  by (induction s i rule: alloc_block_loop.induct) (subst alloc_block_loop.simps, simp)

lemma alloc_inode_loop_full:
  "(\<forall>j. i \<le> j \<and> j < BLOCK_COUNT \<longrightarrow> inode_bitmap s j) \<Longrightarrow> alloc_inode_loop s i = (-1, s)"
proof (induction s i rule: alloc_inode_loop.induct)
  case (1 s i)
  show ?case
  proof (cases "i < BLOCK_COUNT")
    case True
    with "1.prems" have bit: "bitmap_get (inode_bitmap s) i \<noteq> 0"
      by (simp add: bitmap_get_def)
    have "\<forall>j. i + 1 \<le> j \<and> j < BLOCK_COUNT \<longrightarrow> inode_bitmap s j"
      using "1.prems" by simp
    with "1.IH" True bit have "alloc_inode_loop s (i + 1) = (-1, s)"
      by blast
    with True bit show ?thesis
      by (subst alloc_inode_loop.simps) simp
  next
    case False
    then show ?thesis
      by (subst alloc_inode_loop.simps) simp
  qed
qed

text \<open>In every file system whose inode bitmap has no clear bit among the \<open>BLOCK_COUNT\<close>
  scanned, \<^verbatim>\<open>alloc_inode\<close> returns \<open>-1\<close> and has written the fresh-inode fields, and a
  newly taken block, through the slot at index \<open>-1\<close>.\<close>

lemma alloc_inode_full:
  assumes "\<forall>j. 0 \<le> j \<and> j < BLOCK_COUNT \<longrightarrow> inode_bitmap s j"
  shows "fst (alloc_inode s) = -1 \<and>
         refs (get_inode (snd (alloc_inode s)) (-1)) = 1 \<and>
         mode (get_inode (snd (alloc_inode s)) (-1)) = 0 \<and>
         size_i (get_inode (snd (alloc_inode s)) (-1)) = 0 \<and>
         pointers (get_inode (snd (alloc_inode s)) (-1)) 0 = fst (alloc_block s)"
proof -
  have l: "alloc_inode_loop s 0 = (-1, s)"
    using assms by (intro alloc_inode_loop_full) simp
  have c: "fst (alloc_block_loop (s\<lparr>inodes := f\<rparr>) 1) = fst (alloc_block_loop s 1)" for f
    by (rule alloc_block_loop_fst_cong) simp
  show ?thesis
    by (simp add: alloc_inode_def l Let_def split_beta get_inode_def put_inode_def alloc_block_def
          alloc_block_loop_inodes c)
qed

text \<open>\<open>fs_full\<close> is \<open>fs_hello\<close> with every bit of the inode bitmap set.\<close>

definition fs_full :: fs where
  "fs_full = fs_hello\<lparr>inode_bitmap := (\<lambda>_. True)\<rparr>"

text \<open>Claim C8, which the code does not meet. With no clear bit in the inode bitmap
  \<^verbatim>\<open>alloc_inode\<close> does return the sentinel \<open>-1\<close>, but only after it has initialised the
  inode slot at index \<open>-1\<close> (here a zeroed slot becomes \<open>refs = 1\<close> with block 6 in
  \<open>pointers[0]\<close>) and has taken block 6 from the block store.\<close>

theorem alloc_inode_exhausted:
  "fst (alloc_inode fs_full) = -1 \<and>
   get_inode fs_full (-1) = zero_inode \<and>
   get_inode (snd (alloc_inode fs_full)) (-1)
     = \<lparr>refs = 1, mode = 0, size_i = 0, block = 0, pointers = (\<lambda>_. 0)(0 := 6)\<rparr> \<and>
   \<not> blocks_bitmap fs_full 6 \<and> blocks_bitmap (snd (alloc_inode fs_full)) 6"
proof -
  have l: "alloc_inode_loop fs_full 0 = (-1, fs_full)"
    by (rule alloc_inode_loop_full) (simp add: fs_full_def)
  show ?thesis
    unfolding alloc_inode_def l
    by (simp add: fs_full_def fs_hello_def zero_inode_def get_inode_def put_inode_def
          alloc_block_def bitmap_get_def bitmap_put_def BLOCK_COUNT_def alloc_block_loop.simps)
qed

subsection \<open>Directory lookup and insertion\<close>

text \<open>\<open>fs_stale\<close> is reached from \<open>fs_init\<close> by \<^verbatim>\<open>mknod("/d")\<close>, \<^verbatim>\<open>mknod("/d/a")\<close>,
  \<^verbatim>\<open>unlink("/d")\<close>, \<^verbatim>\<open>mknod("/e")\<close>: the new directory \<^verbatim>\<open>/e\<close> gets the inode and the
  block that \<^verbatim>\<open>/d\<close> had, its size is 0, and the block still holds the entry \<^verbatim>\<open>a\<close>.\<close>

definition fs_stale :: fs where
  "fs_stale =
     snd (the (storage_mknod
       (snd (the (storage_unlink
         (snd (the (storage_mknod
           (snd (the (storage_mknod fs_init ''/d'' 16877)))
           ''/d/a'' 33188)))
         ''/d'')))
       ''/e'' 16877))"

text \<open>\<open>fs_64\<close> is the file system after 64 files with one-character names have been made
  in the root directory: 64 allocated entries, recorded size \<open>64 * 64\<close>.\<close>

definition fs_64 :: fs where
  "fs_64 = \<lparr>inode_bitmap = (\<lambda>i. 0 \<le> i \<and> i \<le> 64), blocks_bitmap = (\<lambda>i. 0 \<le> i \<and> i \<le> 68),
     inodes = (\<lambda>i. if i = 0
                    then \<lparr>refs = 1, mode = 16877, size_i = 4096, block = 0, pointers = (\<lambda>_. 0)(0 := 4)\<rparr>
                    else if 1 \<le> i \<and> i \<le> 64
                    then \<lparr>refs = 1, mode = 33188, size_i = 0, block = 0, pointers = (\<lambda>_. 0)(0 := i + 4)\<rparr>
                    else zero_inode),
     block_bytes = (\<lambda>_ _. CHR 0x00),
     block_ints = (\<lambda>_ _. 0),
     block_dirents = (\<lambda>_ _. zero_dirent)
       (4 := (\<lambda>i. if 0 \<le> i \<and> i < 64
                    then \<lparr>name = [char_of (48 + nat i)], inum = i + 1, input_allocation = 1\<rparr>
                    else zero_dirent))\<rparr>"

definition fs_65 :: fs where
  "fs_65 = snd (the (storage_mknod fs_64 ''/new'' 33188))"

text \<open>The result of \<^verbatim>\<open>directory_lookup\<close> does not depend on the size recorded in the
  directory's inode.\<close>

lemma directory_lookup_ignores_size:
  "directory_lookup (put_inode s di ((get_inode s di)\<lparr>size_i := sz\<rparr>)) di nm
     = directory_lookup s di nm"
  by (simp add: directory_lookup_def put_inode_def get_inode_def)

text \<open>Claim C2, which the code does not meet: \<^verbatim>\<open>directory_lookup\<close> scans the fixed range
  \<open>0 .. 63\<close>, whatever the size of the directory. In \<open>fs_stale\<close> the directory \<^verbatim>\<open>/e\<close>
  (inode 1) records no entry, and lookup of \<^verbatim>\<open>a\<close> in it finds inode 2 in the stale
  block. In \<open>fs_65\<close>, the 65th \<^verbatim>\<open>mknod\<close> in the root has succeeded and has put its entry
  at index 64, below the recorded count 65, and lookup of that name answers \<open>-1\<close>.\<close>

theorem directory_lookup_fixed_bound:
  "path_lookup fs_stale ''/e'' = 1 \<and> dir_entries_count fs_stale 1 = 0 \<and>
   directory_lookup fs_stale 1 ''a'' = 2 \<and>
   storage_mknod fs_64 ''/new'' 33188 \<noteq> None \<and>
   fst (the (storage_mknod fs_64 ''/new'' 33188)) = 0 \<and>
   dir_entries_count fs_65 0 = 65 \<and>
   dir_entry fs_65 0 64 = \<lparr>name = ''new'', inum = 65, input_allocation = 1\<rparr> \<and>
   directory_lookup fs_65 0 ''new'' = -1"
  by code_simp

text \<open>\<open>fs_unlinked\<close> is \<open>fs_hello\<close> after \<^verbatim>\<open>unlink("/a")\<close>: the root directory records one
  entry, and that entry is not allocated.\<close>

definition fs_unlinked :: fs where
  "fs_unlinked = snd (the (storage_unlink fs_hello ''/a''))"

text \<open>Claim C5, which the code does not meet: the loop of \<^verbatim>\<open>directory_put\<close> starts at
  index 1, so a free slot at index 0 is never taken. In \<open>fs_unlinked\<close> the only recorded
  slot, index 0, is free; the insertion leaves it as it is, writes the new entry at index
  1 and adds 64 to the size.\<close>

theorem directory_put_skips_first_slot:
  "dir_entries_count fs_unlinked 0 = 1 \<and>
   dir_entry fs_unlinked 0 0 = \<lparr>name = ''a'', inum = 1, input_allocation = 0\<rparr> \<and>
   fst (directory_put fs_unlinked 0 ''b'' 1) = 0 \<and>
   dir_entry (snd (directory_put fs_unlinked 0 ''b'' 1)) 0 0
     = \<lparr>name = ''a'', inum = 1, input_allocation = 0\<rparr> \<and>
   dir_entry (snd (directory_put fs_unlinked 0 ''b'' 1)) 0 1
     = \<lparr>name = ''b'', inum = 1, input_allocation = 1\<rparr> \<and>
   size_i (get_inode fs_unlinked 0) = 64 \<and>
   size_i (get_inode (snd (directory_put fs_unlinked 0 ''b'' 1)) 0) = 128"
  by code_simp

subsection \<open>Truncation\<close>

text \<open>\<open>fs_truncated\<close> is \<open>fs_hello\<close> after \<^verbatim>\<open>truncate("/a", 10)\<close>,
  \<^verbatim>\<open>truncate("/a", 3)\<close>, \<^verbatim>\<open>truncate("/a", 10)\<close>.\<close>

definition fs_truncated :: fs where
  "fs_truncated =
     snd (storage_truncate (snd (storage_truncate (snd (storage_truncate fs_hello
       ''/a'' 10)) ''/a'' 3)) ''/a'' 10)"

text \<open>Claim C3, which the code does not meet. After the three calls the size is 10, as
  claimed. But \<^verbatim>\<open>shrink_inode\<close> frees every extent from the top down to and including
  index \<open>size / BLOCK_SIZE\<close> of the new size, which is the extent holding the bytes that
  are to stay; it stores 0 in the pointer, and \<^verbatim>\<open>grow_inode\<close> starts above that index.
  The file's first extent is block 0 afterwards, its data block 5 is marked free (as is the
  reserved block 0), and the first three bytes read are no longer \<^verbatim>\<open>hel\<close>.\<close>

theorem truncate_shrink_loses_data:
  "fst (storage_stat fs_truncated ''/a'' \<lparr>st_nlink = 0, st_mode = 0, st_size = 0\<rparr>) = 0 \<and>
   st_size (fst (snd (storage_stat fs_truncated ''/a'' \<lparr>st_nlink = 0, st_mode = 0, st_size = 0\<rparr>))) = 10 \<and>
   fst (snd (storage_read fs_hello ''/a'' 3 0)) = ''hel'' \<and>
   fst (snd (storage_read fs_truncated ''/a'' 3 0)) = [CHR 0x00, CHR 0x00, CHR 0x00] \<and>
   inode_get_bnum fs_hello 1 0 = 5 \<and>
   inode_get_bnum fs_truncated 1 0 = 0 \<and>
   blocks_bitmap fs_hello 5 \<and> \<not> blocks_bitmap fs_truncated 5 \<and>
   blocks_bitmap fs_hello 0 \<and> \<not> blocks_bitmap fs_truncated 0"
  by code_simp

subsection \<open>The length of a read\<close>

lemma to_int_id: "- 2147483648 \<le> x \<Longrightarrow> x \<le> 2147483647 \<Longrightarrow> to_int x = x"
  by (simp add: to_int_def)

lemma storage_read_loop_count:
  "0 \<le> remainingSize \<Longrightarrow>
   fst (storage_read_loop s n offset remainingSize bytesRead buf) = bytesRead + remainingSize \<and>
   int (length (snd (storage_read_loop s n offset remainingSize bytesRead buf)))
     = int (length buf) + remainingSize"
proof (induction s n offset remainingSize bytesRead buf rule: storage_read_loop.induct)
  case (1 s n offset remainingSize bytesRead buf)
  show ?case
  proof (cases "remainingSize > 0")
    case False
    with "1.prems" show ?thesis
      by (subst storage_read_loop.simps, subst (2) storage_read_loop.simps) simp
  next
    case True
    define blockNum where "blockNum = inode_get_bnum s n (to_int (offset + bytesRead))"
    define blockOff where "blockOff = c_mod offset BLOCK_SIZE"
    define blockReadSize where "blockReadSize = BLOCK_SIZE - c_mod offset BLOCK_SIZE"
    define readSize where
      "readSize = (if remainingSize < blockReadSize then remainingSize else blockReadSize)"
    define chunk where
      "chunk = map (\<lambda>k. block_bytes s blockNum (blockOff + int k)) [0 ..< nat readSize]"
    have "c_mod offset BLOCK_SIZE < BLOCK_SIZE"
      by (rule c_mod_lt) (simp add: BLOCK_SIZE_def)
    then have rs: "0 < readSize" "readSize \<le> remainingSize"
      using True by (auto simp: readSize_def blockReadSize_def)
    have step: "storage_read_loop s n offset remainingSize bytesRead buf =
        storage_read_loop s n offset (remainingSize - readSize) (bytesRead + readSize) (buf @ chunk)"
      using True
      by (subst storage_read_loop.simps)
         (simp add: Let_def blockNum_def blockOff_def blockReadSize_def readSize_def chunk_def)
    have ih: "fst (storage_read_loop s n offset (remainingSize - readSize) (bytesRead + readSize) (buf @ chunk))
          = bytesRead + readSize + (remainingSize - readSize) \<and>
        int (length (snd (storage_read_loop s n offset (remainingSize - readSize) (bytesRead + readSize) (buf @ chunk))))
          = int (length (buf @ chunk)) + (remainingSize - readSize)"
      using "1.IH" [OF True blockNum_def blockOff_def blockReadSize_def readSize_def chunk_def] rs
      by simp
    have "int (length chunk) = readSize"
      using rs by (simp add: chunk_def)
    with ih step show ?thesis by simp
  qed
qed

text \<open>The model reads a block number and a byte at any index. The program reads them from
  its image of \<open>BLOCK_COUNT\<close> blocks, so the model stands for it where the inode is one of
  the table and every block number comes from a direct pointer, or from an entry of an
  indirect block that is a block of the store, and is itself the number of a block of the
  store. \<open>BLOCK_SIZE div 4\<close> is the number of \<^verbatim>\<open>int\<close> entries of a block.\<close>

definition bnum_in_store :: "fs \<Rightarrow> int \<Rightarrow> int \<Rightarrow> bool" where
  "bnum_in_store s n file_bnum \<longleftrightarrow>
     (let curr_pointer = c_div file_bnum BLOCK_SIZE
      in 0 \<le> curr_pointer \<and>
         (curr_pointer \<ge> 2 \<longrightarrow>
            0 \<le> block (get_inode s n) \<and> block (get_inode s n) < BLOCK_COUNT \<and>
            curr_pointer - 2 < BLOCK_SIZE div 4) \<and>
         0 \<le> inode_get_bnum s n file_bnum \<and> inode_get_bnum s n file_bnum < BLOCK_COUNT)"

definition read_in_store :: "fs \<Rightarrow> int \<Rightarrow> int \<Rightarrow> int \<Rightarrow> bool" where
  "read_in_store s n offset sz \<longleftrightarrow>
     0 \<le> offset \<and> (\<forall>k. 0 \<le> k \<and> k < sz \<longrightarrow> bnum_in_store s n (to_int (offset + k)))"

text \<open>Claim C6, amended. For every path that resolves to an inode number \<open>n\<close> with
  \<open>0 < n < BLOCK_COUNT\<close> and every requested size that is not negative and that an
  \<^verbatim>\<open>int\<close> holds: \<^verbatim>\<open>storage_read\<close> returns 0 and copies nothing when the offset is at or
  beyond the inode's size. When the offset is not negative and below the inode's size, and
  the block number that \<^verbatim>\<open>inode_get_bnum\<close> gives for each of the positions \<open>offset\<close> to
  \<open>offset + size - 1\<close> is read inside the store and is the number of a block of the store,
  it copies and reports exactly the requested number of bytes, with no clamping to the end
  of the file. Either way the file system is unchanged.\<close>

theorem storage_read_length:
  assumes "0 < path_lookup s path" and "path_lookup s path < BLOCK_COUNT"
    and "0 \<le> sz" and "sz \<le> 2147483647"
  shows "(size_i (get_inode s (path_lookup s path)) \<le> offset \<longrightarrow>
            storage_read s path sz offset = (0, [], s)) \<and>
         (offset < size_i (get_inode s (path_lookup s path)) \<and>
          read_in_store s (path_lookup s path) offset sz \<longrightarrow>
            fst (storage_read s path sz offset) = sz \<and>
            int (length (fst (snd (storage_read s path sz offset)))) = sz \<and>
            snd (snd (storage_read s path sz offset)) = s)"
proof -
  have "to_int sz = sz"
    using assms by (simp add: to_int_id)
  then show ?thesis
    using assms storage_read_loop_count [of sz s "path_lookup s path" offset 0 "[]"]
    by (simp add: storage_read_def Let_def split_beta)
qed

text \<open>A read of 100 bytes from the 5-byte file: nothing at offset 5, all 100 at offset 0,
  from block 5.\<close>

theorem storage_read_length_witness:
  "storage_read fs_hello ''/a'' 100 5 = (0, [], fs_hello) \<and>
   fst (storage_read fs_hello ''/a'' 100 0) = 100 \<and>
   int (length (fst (snd (storage_read fs_hello ''/a'' 100 0)))) = 100"
proof -
  have a: "path_lookup fs_hello ''/a'' = 1"
    by code_simp
  have sz: "size_i (get_inode fs_hello 1) = 5"
    by code_simp
  have "bnum_in_store fs_hello 1 (to_int (0 + k))" if "0 \<le> k" "k < 100" for k
  proof -
    from that have "to_int (0 + k) = k" by (simp add: to_int_def)
    moreover from that have "c_div k BLOCK_SIZE = 0" by (simp add: c_div_def BLOCK_SIZE_def)
    ultimately show ?thesis
      by (simp add: bnum_in_store_def inode_get_bnum_def get_inode_def fs_hello_def
          BLOCK_COUNT_def)
  qed
  then have r: "read_in_store fs_hello 1 0 100"
    by (simp add: read_in_store_def)
  from storage_read_length [of fs_hello "''/a''" 100 5]
    storage_read_length [of fs_hello "''/a''" 100 0] a sz r
  show ?thesis by (simp add: BLOCK_COUNT_def)
qed

text \<open>The claim as first stated fails at the root path, which resolves (to inode 0) and
  is answered \<open>-1\<close>, and at a requested size of \<open>2^31\<close>, which the conversion to
  \<^verbatim>\<open>int\<close> makes negative, so that 0 is reported.\<close>

theorem storage_read_length_counterexample:
  "path_lookup fs_hello ''/'' = 0 \<and> 0 < size_i (get_inode fs_hello 0) \<and>
   fst (storage_read fs_hello ''/'' 5 0) = - 1 \<and>
   path_lookup fs_hello ''/a'' = 1 \<and> 0 < size_i (get_inode fs_hello 1) \<and>
   fst (storage_read fs_hello ''/a'' 2147483648 0) = 0"
  by code_simp


section \<open>Link counts and the write/read round trip\<close>

subsection \<open>Directory lookup and path resolution\<close>

















text \<open>Directory lookup reads the first direct pointer of the directory and the entries
  of that block, nothing else.\<close>

lemma directory_lookup_frame:
  "pointers (get_inode s' d) 0 = pointers (get_inode s d) 0 \<Longrightarrow>
   block_dirents s' (pointers (get_inode s d) 0) = block_dirents s (pointers (get_inode s d) 0) \<Longrightarrow>
   directory_lookup s' d n = directory_lookup s d n"
  by (simp add: directory_lookup_def)






subsection \<open>Allocation\<close>

definition free_blocks :: "fs \<Rightarrow> int set" where
  "free_blocks s = {b. 1 \<le> b \<and> b < BLOCK_COUNT \<and> \<not> blocks_bitmap s b}"




lemma bitmap_put_apply: "bitmap_put bm b v x = (if x = b then v \<noteq> 0 else bm x)"
  by (simp add: bitmap_put_def)

lemma free_blocks_alloc:
  "free_blocks (s\<lparr>blocks_bitmap := bitmap_put (blocks_bitmap s) b 1\<rparr>) = free_blocks s - {b}"
  by (auto simp: free_blocks_def bitmap_put_apply)

lemma free_blocks_update [simp]:
  "free_blocks (s\<lparr>inodes := f\<rparr>) = free_blocks s"
  "free_blocks (s\<lparr>inode_bitmap := g\<rparr>) = free_blocks s"
  "free_blocks (s\<lparr>block_bytes := h\<rparr>) = free_blocks s"
  "free_blocks (s\<lparr>block_ints := k\<rparr>) = free_blocks s"
  "free_blocks (s\<lparr>block_dirents := l\<rparr>) = free_blocks s"
  by (simp_all add: free_blocks_def)



subsection \<open>Insertion into and removal from a directory\<close>

lemma to_size_t_id: "0 \<le> x \<Longrightarrow> x < 18446744073709551616 \<Longrightarrow> to_size_t x = x"
  by (simp add: to_size_t_def)

lemma dir_entries_count_eq:
  assumes "0 \<le> size_i (get_inode s di)" and "size_i (get_inode s di) \<le> 2147483647"
  shows "dir_entries_count s di = size_i (get_inode s di) div 64"
proof -
  have "to_size_t (size_i (get_inode s di)) = size_i (get_inode s di)"
    using assms by (simp add: to_size_t_id)
  moreover have "0 \<le> size_i (get_inode s di) div 64" "size_i (get_inode s di) div 64 \<le> 2147483647"
    using assms by simp_all
  ultimately show ?thesis
    by (simp add: dir_entries_count_def sizeof_dirent_def to_int_id)
qed






subsection \<open>Projections of the updates\<close>

lemma get_inode_put_inode [simp]:
  "get_inode (put_inode s n v) m = (if m = n then v else get_inode s m)"
  by (simp add: get_inode_def put_inode_def)

lemma get_inode_put_dirent [simp]: "get_inode (put_dirent s b i e) m = get_inode s m"
  by (simp add: get_inode_def put_dirent_def)

lemma block_dirents_put_inode [simp]: "block_dirents (put_inode s n v) = block_dirents s"
  by (simp add: put_inode_def)


lemma bitmaps_put [simp]:
  "inode_bitmap (put_inode s n v) = inode_bitmap s"
  "blocks_bitmap (put_inode s n v) = blocks_bitmap s"
  "inode_bitmap (put_dirent s b i e) = inode_bitmap s"
  "blocks_bitmap (put_dirent s b i e) = blocks_bitmap s"
  by (simp_all add: put_inode_def put_dirent_def)

lemma contents_put [simp]:
  "block_bytes (put_inode s n v) = block_bytes s"
  "block_ints (put_inode s n v) = block_ints s"
  "block_bytes (put_dirent s b i e) = block_bytes s"
  "block_ints (put_dirent s b i e) = block_ints s"
  by (simp_all add: put_inode_def put_dirent_def)


lemma dir_entries_count_put_dirent [simp]:
  "dir_entries_count (put_dirent s b i e) d = dir_entries_count s d"
  by (simp add: dir_entries_count_def)

lemma dir_entry_put_inode:
  "pointers v 0 = pointers (get_inode s n) 0 \<Longrightarrow> dir_entry (put_inode s n v) d i = dir_entry s d i"
  by (simp add: dir_entry_def)

subsection \<open>Well-formed directories\<close>

text \<open>A directory fits its one block, its flags are 0 or 1, and the slots beyond the
  recorded entries are not allocated.\<close>

definition dir_wf :: "fs \<Rightarrow> int \<Rightarrow> bool" where
  "dir_wf s d \<longleftrightarrow>
     0 \<le> size_i (get_inode s d) \<and> size_i (get_inode s d) \<le> BLOCK_SIZE \<and>
     (\<forall>i. 0 \<le> i \<and> i < 64 \<longrightarrow>
        (input_allocation (dir_entry s d i) = 0 \<or> input_allocation (dir_entry s d i) = 1) \<and>
        (dir_entries_count s d \<le> i \<longrightarrow> input_allocation (dir_entry s d i) = 0))"

lemma dir_wf_count:
  assumes "dir_wf s d"
  shows "dir_entries_count s d = size_i (get_inode s d) div 64"
    and "0 \<le> dir_entries_count s d"
proof -
  from assms have sz: "0 \<le> size_i (get_inode s d)" "size_i (get_inode s d) \<le> 4096"
    by (simp_all add: dir_wf_def BLOCK_SIZE_def)
  then show "dir_entries_count s d = size_i (get_inode s d) div 64"
    by (intro dir_entries_count_eq) simp_all
  with sz show "0 \<le> dir_entries_count s d" by simp
qed



subsection \<open>Extents, shrinking and freeing\<close>

text \<open>The block that holds extent \<open>j\<close> of the file with inode \<open>n\<close>.\<close>

definition extent :: "fs \<Rightarrow> int \<Rightarrow> int \<Rightarrow> int" where
  "extent s n j =
     (if j \<ge> 2 then block_ints s (block (get_inode s n)) (j - 2) else pointers (get_inode s n) j)"


lemma free_block_proj [simp]:
  "blocks_bitmap (free_block s b) x = (x \<noteq> b \<and> blocks_bitmap s x)"
  "inode_bitmap (free_block s b) = inode_bitmap s"
  "inodes (free_block s b) = inodes s"
  "get_inode (free_block s b) m = get_inode s m"
  "block_ints (free_block s b) = block_ints s"
  "block_bytes (free_block s b) = block_bytes s"
  "block_dirents (free_block s b) = block_dirents s"
  by (auto simp: free_block_def bitmap_put_apply get_inode_def)

lemma get_inode_update [simp]:
  "get_inode (s\<lparr>inode_bitmap := g\<rparr>) m = get_inode s m"
  "get_inode (s\<lparr>blocks_bitmap := g\<rparr>) m = get_inode s m"
  "get_inode (s\<lparr>block_bytes := h\<rparr>) m = get_inode s m"
  "get_inode (s\<lparr>block_ints := k\<rparr>) m = get_inode s m"
  "get_inode (s\<lparr>block_dirents := l\<rparr>) m = get_inode s m"
  by (simp_all add: get_inode_def)

lemma shrink_step_frame [simp]:
  "inode_bitmap (shrink_step s n i) = inode_bitmap s"
  "block_ints (shrink_step s n i) = block_ints s"
  "block_bytes (shrink_step s n i) = block_bytes s"
  "block_dirents (shrink_step s n i) = block_dirents s"
  by (simp_all add: shrink_step_def Let_def)











lemma free_inode_size: "size_i (get_inode (free_inode s n) n) = 0"
  by (simp add: free_inode_def shrink_inode_def Let_def)

subsection \<open>Where the model stands for the image\<close>

text \<open>The record \<open>fs\<close> keeps the two bitmaps, the inode table and the three views of a block
  apart, and its maps are total. The program keeps all of them in one image of
  \<open>BLOCK_COUNT\<close> blocks: the bitmaps and the inode table lie in the first blocks, which
  \<^verbatim>\<open>storage_init\<close> reserves (block 0 is never handed out, blocks 1 to 3 are taken before
  the root directory gets block 4), and the bytes that are written through one pointer
  type are the bytes that are read through another. A run of the model stands for the run
  of the program when every index it uses is one of the image and no block is written
  through one view and read through another. The theorems about \<^verbatim>\<open>mknod\<close>, \<^verbatim>\<open>link\<close> and
  \<^verbatim>\<open>unlink\<close> below take this as hypotheses, in the following terms.

  \<^item> \<open>data_block b\<close>: \<open>b\<close> is a block of the store above the reserved ones.
  \<^item> \<open>reserved_taken s\<close>: the blocks 1 to 3 are marked used, so that \<^verbatim>\<open>alloc_block\<close> hands
    out data blocks only.
  \<^item> \<open>dir_proper s d\<close>: \<open>d\<close> is an inode of the table that is marked used, and its entry
    block is a data block that is marked used, so that no allocation hands it to a file.
  \<^item> \<open>path_proper s i cs\<close>: every inode that the resolution of the components \<open>cs\<close> from
    \<open>i\<close> visits is such a directory.
  \<^item> \<open>file_releasable s n\<close>: the size of the file is not negative, every extent that
    \<^verbatim>\<open>free_inode\<close> releases (the loop of \<^verbatim>\<open>shrink_inode\<close> starts one extent beyond the
    last) is the number of a block of the store, and when that loop reads the indirect
    block (the file is \<open>BLOCK_SIZE\<close> bytes or longer) the indirect block is a data block
    and the entries read lie inside it.\<close>

definition data_block :: "int \<Rightarrow> bool" where
  "data_block b \<longleftrightarrow> 3 < b \<and> b < BLOCK_COUNT"




definition file_releasable :: "fs \<Rightarrow> int \<Rightarrow> bool" where
  "file_releasable s n \<longleftrightarrow>
     0 \<le> size_i (get_inode s n) \<and>
     (\<forall>j. 0 \<le> j \<and> j \<le> size_i (get_inode s n) div BLOCK_SIZE + 1 \<longrightarrow>
        0 \<le> extent s n j \<and> extent s n j < BLOCK_COUNT) \<and>
     (BLOCK_SIZE \<le> size_i (get_inode s n) \<longrightarrow>
        data_block (block (get_inode s n)) \<and>
        size_i (get_inode s n) div BLOCK_SIZE \<le> BLOCK_SIZE div 4)"


lemma file_releasable_size: "file_releasable s n \<Longrightarrow> 0 \<le> size_i (get_inode s n)"
  by (simp add: file_releasable_def)

subsection \<open>link and unlink\<close>


lemma split_path_take:
  "split_path path = Some (parent, child) \<Longrightarrow> length child \<le> DIR_NAME_LENGTH"
  by (auto simp: split_path_def split: list.splits)






text \<open>\<open>fs_ab\<close> holds the two files \<^verbatim>\<open>/a\<close> and \<^verbatim>\<open>/b\<close>. \<^verbatim>\<open>link("/a", "/b")\<close> returns 0
  and appends a second entry named \<open>a\<close>; the lookup finds the older entry first, so that
  \<^verbatim>\<open>stat("/a")\<close> still reports the first file, with link count 1.\<close>

definition fs_ab :: fs where
  "fs_ab = \<lparr>inode_bitmap = (\<lambda>i. i = 0 \<or> i = 1 \<or> i = 2), blocks_bitmap = (\<lambda>i. 0 \<le> i \<and> i \<le> 6),
     inodes = (\<lambda>_. zero_inode)
       (0 := \<lparr>refs = 1, mode = 16877, size_i = 128, block = 0, pointers = (\<lambda>_. 0)(0 := 4)\<rparr>,
        1 := \<lparr>refs = 1, mode = 33188, size_i = 0, block = 0, pointers = (\<lambda>_. 0)(0 := 5)\<rparr>,
        2 := \<lparr>refs = 1, mode = 33188, size_i = 0, block = 0, pointers = (\<lambda>_. 0)(0 := 6)\<rparr>),
     block_bytes = (\<lambda>_ _. CHR 0x00),
     block_ints = (\<lambda>_ _. 0),
     block_dirents = (\<lambda>_ _. zero_dirent)
       (4 := (\<lambda>_. zero_dirent)
          (0 := \<lparr>name = ''a'', inum = 1, input_allocation = 1\<rparr>,
           1 := \<lparr>name = ''b'', inum = 2, input_allocation = 1\<rparr>))\<rparr>"


lemma fs_ab_reached: "storage_mknod fs_a ''/b'' 33188 = Some (0, fs_ab)"
  by (simp add: fs_a_def fs_ab_def op_defs loop_simps) (auto simp: fun_eq_iff)



subsection \<open>Writing and reading at offset 0\<close>


lemma memcpy_to_block_frame [simp]:
  "inodes (memcpy_to_block s b off src n) = inodes s"
  "get_inode (memcpy_to_block s b off src n) m = get_inode s m"
  "block_ints (memcpy_to_block s b off src n) = block_ints s"
  "block_dirents (memcpy_to_block s b off src n) = block_dirents s"
  "inode_bitmap (memcpy_to_block s b off src n) = inode_bitmap s"
  "blocks_bitmap (memcpy_to_block s b off src n) = blocks_bitmap s"
  by (simp_all add: memcpy_to_block_def Let_def get_inode_def)


lemma extent_memcpy [simp]: "extent (memcpy_to_block s b off src n) m j = extent s m j"
  by (simp add: extent_def)




subsection \<open>Growing a fresh file\<close>



lemma free_blocks_nonempty: "0 < int (card (free_blocks s)) \<Longrightarrow> free_blocks s \<noteq> {}"
  by auto




lemma free_blocks_bitmap_put:
  "free_blocks (s\<lparr>blocks_bitmap := bitmap_put (blocks_bitmap s) b 1\<rparr>) = free_blocks s - {b}"
  by (rule free_blocks_alloc)





subsection \<open>mknod, write, read\<close>



lemma dir_entry_cong:
  "get_inode s' d = get_inode s d \<Longrightarrow> block_dirents s' = block_dirents s \<Longrightarrow>
   dir_entry s' d i = dir_entry s d i"
  by (simp add: dir_entry_def)















end
